theory Spec2Isabelle
  imports Main
begin

section \<open>Data model of \<open>fedex_api.py\<close>\<close>

text \<open>
  The exceptions the modelled code can raise. \<open>AuthenticationError\<close> and
  \<open>InvalidRequestError\<close> are the two classes the module declares; the others are the
  Python built-ins raised by subscripting, iteration, comparison and parsing, and
  \<open>HTTPError\<close> is what \<open>raise_for_status\<close> raises. \<open>TransportError\<close> stands for
  whatever \<open>requests.request\<close> itself raises when no response is obtained.
\<close>

datatype error =
    AuthenticationError
  | InvalidRequestError
  | HTTPError
  | TransportError
  | JSONDecodeError
  | KeyError
  | TypeError
  | ValueError
  | AttributeError
  | IndexError

datatype Event =
    ACTUAL_DELIVERY
  | ACTUAL_PICKUP
  | ACTUAL_TENDER
  | ANTICIPATED_TENDER
  | APPOINTMENT_DELIVERY
  | ATTEMPTED_DELIVERY
  | COMMITMENT
  | ESTIMATED_ARRIVAL_AT_GATEWAY
  | ESTIMATED_DELIVERY
  | ESTIMATED_PICKUP
  | ESTIMATED_RETURN_TO_STATION
  | SHIP
  | SHIPMENT_DATA_RECEIVED

datatype PackageType =
    BAG | BARREL | BASKET | BOX | BUCKET | BUNDLE | CAGE | CARTON | CASE | CHEST
  | CONTAINER | CRATE | CYLINDER | DRUM | ENVELOPE | HAMPER | OTHER | PACKAGE | PAIL
  | PALLET | PARCEL | PIECE | REEL | ROLL | SACK | SHRINK_WRAPPED | SKID | TANK
  | TOTE_BIN | TUBE | UNIT

text \<open>
  A value of \<open>datetime.datetime\<close>. A naive value carries its wall-clock time only; an
  aware value carries the wall-clock time and the UTC offset of its \<open>tzinfo\<close>. Both are
  counted in microseconds.
\<close>

datatype py_datetime =
    Naive int
  | Aware int int

text \<open>
  The values \<open>response.json()\<close> can produce: \<open>None\<close>, booleans, numbers, strings,
  lists and dictionaries. A dictionary is an association list read by its first binding
  of a key. No operation of the module looks inside a number, so one integer
  constructor stands for all of them.
\<close>

datatype json =
    JNull
  | JBool bool
  | JInt int
  | JStr string
  | JList "json list"
  | JDict "(string \<times> json) list"

record DateAndTimeEvent =
  datetime :: "py_datetime option"
  type :: "Event option"

record Package =
  package_type :: PackageType
  count :: int

text \<open>
  \<open>TrackingResult\<close>: every field but \<open>is_valid\<close> defaults to \<open>None\<close>. The three
  identifiers are whatever the payload holds under their keys, so they are JSON values
  and their \<open>None\<close> is \<open>JNull\<close>.
\<close>

record TrackingResult =
  is_valid :: bool
  tracking_number :: json
  unique_id :: json
  carrier_code :: json
  is_delivered :: "bool option"
  is_shipped :: "bool option"
  date_ship :: "py_datetime option"
  date_delivery :: "py_datetime option"
  latest_status :: "DateAndTimeEvent option"
  events :: "DateAndTimeEvent list option"
  package :: "Package option"

text \<open>\<open>TrackingResult(False)\<close>: the positional argument and the defaults.\<close>

definition TrackingResult_False :: TrackingResult where
  "TrackingResult_False =
     \<lparr>is_valid = False, tracking_number = JNull, unique_id = JNull, carrier_code = JNull,
      is_delivered = None, is_shipped = None, date_ship = None, date_delivery = None,
      latest_status = None, events = None, package = None\<rparr>"

text \<open>What \<open>requests.request\<close> returns: the status code and the outcome of \<open>.json()\<close>
  (\<open>None\<close> when the body is not JSON, where \<open>.json()\<close> raises).\<close>

record response =
  status_code :: nat
  json_body :: "json option"

section \<open>Python operations on decoded JSON\<close>

text \<open>\<open>x[key]\<close> with a string key: a dictionary looks the key up and raises
  \<open>KeyError\<close> when it is absent; every other value raises \<open>TypeError\<close>.\<close>

fun getitem :: "json \<Rightarrow> string \<Rightarrow> error + json" where
  "getitem (JDict kvs) k = (case map_of kvs k of None \<Rightarrow> Inl KeyError | Some v \<Rightarrow> Inr v)"
| "getitem _ k = Inl TypeError"

fun startswith :: "string \<Rightarrow> string \<Rightarrow> bool" where
  "startswith s [] = True"
| "startswith [] (c # cs) = False"
| "startswith (x # xs) (c # cs) = (x = c \<and> startswith xs cs)"

fun substring :: "string \<Rightarrow> string \<Rightarrow> bool" where
  "substring k [] = (k = [])"
| "substring k (x # xs) = (startswith (x # xs) k \<or> substring k xs)"

text \<open>\<open>key in x\<close> with a string key: key membership for a dictionary, element
  membership for a list, substring test for a string, \<open>TypeError\<close> otherwise.\<close>

fun contains :: "json \<Rightarrow> string \<Rightarrow> error + bool" where
  "contains (JDict kvs) k = Inr (map_of kvs k \<noteq> None)"
| "contains (JList xs) k = Inr (JStr k \<in> set xs)"
| "contains (JStr s) k = Inr (substring k s)"
| "contains _ k = Inl TypeError"

text \<open>\<open>for v in x\<close>: the elements of a list, the keys of a dictionary, the characters
  of a string; any other value is not iterable.\<close>

fun iterate :: "json \<Rightarrow> error + json list" where
  "iterate (JList xs) = Inr xs"
| "iterate (JDict kvs) = Inr (map (\<lambda>kv. JStr (fst kv)) kvs)"
| "iterate (JStr s) = Inr (map (\<lambda>c. JStr [c]) s)"
| "iterate _ = Inl TypeError"

definition Event_members :: "(string \<times> Event) list" where
  "Event_members =
     [(''ACTUAL_DELIVERY'', ACTUAL_DELIVERY),
      (''ACTUAL_PICKUP'', ACTUAL_PICKUP),
      (''ACTUAL_TENDER'', ACTUAL_TENDER),
      (''ANTICIPATED_TENDER'', ANTICIPATED_TENDER),
      (''APPOINTMENT_DELIVERY'', APPOINTMENT_DELIVERY),
      (''ATTEMPTED_DELIVERY'', ATTEMPTED_DELIVERY),
      (''COMMITMENT'', COMMITMENT),
      (''ESTIMATED_ARRIVAL_AT_GATEWAY'', ESTIMATED_ARRIVAL_AT_GATEWAY),
      (''ESTIMATED_DELIVERY'', ESTIMATED_DELIVERY),
      (''ESTIMATED_PICKUP'', ESTIMATED_PICKUP),
      (''ESTIMATED_RETURN_TO_STATION'', ESTIMATED_RETURN_TO_STATION),
      (''SHIP'', SHIP),
      (''SHIPMENT_DATA_RECEIVED'', SHIPMENT_DATA_RECEIVED)]"

text \<open>\<open>Event[name]\<close>: a lookup in the member table. An unknown name raises
  \<open>KeyError\<close>, as does any other hashable value; a list or a dictionary is unhashable
  and raises \<open>TypeError\<close>.\<close>

fun Event_getitem :: "json \<Rightarrow> error + Event" where
  "Event_getitem (JStr s) =
     (case map_of Event_members s of None \<Rightarrow> Inl KeyError | Some e \<Rightarrow> Inr e)"
| "Event_getitem (JList xs) = Inl TypeError"
| "Event_getitem (JDict kvs) = Inl TypeError"
| "Event_getitem _ = Inl KeyError"

text \<open>\<open>datetime.fromisoformat(v)\<close>. The parser of the standard library is a parameter
  \<open>parse\<close> (\<open>None\<close> where it rejects the string with \<open>ValueError\<close>); an argument that is
  not a string raises \<open>TypeError\<close>.\<close>

fun fromisoformat :: "(string \<Rightarrow> py_datetime option) \<Rightarrow> json \<Rightarrow> error + py_datetime" where
  "fromisoformat parse (JStr s) = (case parse s of None \<Rightarrow> Inl ValueError | Some d \<Rightarrow> Inr d)"
| "fromisoformat parse _ = Inl TypeError"

text \<open>\<open>a > b\<close> on two datetimes: naive values compare their wall-clock times, aware
  values compare after their UTC offsets are subtracted, and a naive value against an
  aware one raises \<open>TypeError\<close>.\<close>

fun datetime_gt :: "py_datetime \<Rightarrow> py_datetime \<Rightarrow> error + bool" where
  "datetime_gt (Naive a) (Naive b) = Inr (a > b)"
| "datetime_gt (Aware a oa) (Aware b ob) = Inr (a - oa > b - ob)"
| "datetime_gt _ _ = Inl TypeError"

text \<open>The same comparison where either side may be \<open>None\<close>, which is not orderable
  against a datetime.\<close>

fun py_gt :: "py_datetime option \<Rightarrow> py_datetime option \<Rightarrow> error + bool" where
  "py_gt (Some a) (Some b) = datetime_gt a b"
| "py_gt _ _ = Inl TypeError"

text \<open>Sequencing of statements that may raise: the first exception ends the
  computation.\<close>

fun bind_err :: "error + 'a \<Rightarrow> ('a \<Rightarrow> error + 'b) \<Rightarrow> error + 'b" where
  "bind_err (Inl e) f = Inl e"
| "bind_err (Inr x) f = f x"

section \<open>\<open>FedexAPI.track_by_number\<close>\<close>

subsection \<open>The loop over the events of one tracking result (lines 177 to 192)\<close>

text \<open>The local variables the event loop updates; \<open>events_var\<close> is the local
  \<open>events\<close>.\<close>

record locals =
  shipped :: bool
  delivered :: bool
  ship_date :: "py_datetime option"
  delivery_date :: "py_datetime option"
  latest_date :: "py_datetime option"
  latest_type :: "Event option"
  events_var :: "DateAndTimeEvent list"

text \<open>Lines 168 to 174.\<close>

definition init_locals :: locals where
  "init_locals =
     \<lparr>shipped = False, delivered = False, ship_date = None, delivery_date = None,
      latest_date = None, latest_type = None, events_var = []\<rparr>"

text \<open>Lines 178 and 179: the member lookup, then the timestamp.\<close>

definition decode_event ::
  "(string \<Rightarrow> py_datetime option) \<Rightarrow> json \<Rightarrow> error + (Event \<times> py_datetime)" where
  "decode_event parse event =
     bind_err (getitem event ''type'') (\<lambda>tag.
     bind_err (Event_getitem tag) (\<lambda>event_type.
     bind_err (getitem event ''dateTime'') (\<lambda>stamp.
     bind_err (fromisoformat parse stamp) (\<lambda>event_date.
     Inr (event_type, event_date)))))"

text \<open>Lines 180 to 187: the \<open>if\<close>/\<open>elif\<close> chain on the event type.\<close>

definition update_dates :: "locals \<Rightarrow> Event \<Rightarrow> py_datetime \<Rightarrow> locals" where
  "update_dates st event_type event_date =
     (if event_type = SHIP then
        st\<lparr>shipped := True, ship_date := Some event_date\<rparr>
      else if event_type = ACTUAL_DELIVERY then
        st\<lparr>delivered := True, delivery_date := Some event_date\<rparr>
      else if event_type = ESTIMATED_DELIVERY then
        st\<lparr>delivery_date := Some event_date\<rparr>
      else st)"

text \<open>Lines 188 to 190. The \<open>or\<close> is short-circuit: the comparison is evaluated only
  when \<open>latest_type\<close> is set.\<close>

definition update_latest :: "locals \<Rightarrow> Event \<Rightarrow> py_datetime \<Rightarrow> error + locals" where
  "update_latest st event_type event_date =
     bind_err (if latest_type st = None then Inr True
               else py_gt (Some event_date) (latest_date st)) (\<lambda>later.
     Inr (if later then st\<lparr>latest_date := Some event_date, latest_type := Some event_type\<rparr>
          else st))"

text \<open>Lines 191 and 192.\<close>

definition append_event :: "locals \<Rightarrow> Event \<Rightarrow> py_datetime \<Rightarrow> locals" where
  "append_event st event_type event_date =
     st\<lparr>events_var := events_var st @ [\<lparr>datetime = Some event_date, type = Some event_type\<rparr>]\<rparr>"

text \<open>Lines 180 to 192 on a decoded event.\<close>

definition event_update :: "locals \<Rightarrow> Event \<Rightarrow> py_datetime \<Rightarrow> error + locals" where
  "event_update st event_type event_date =
     bind_err (update_latest (update_dates st event_type event_date) event_type event_date)
       (\<lambda>st'. Inr (append_event st' event_type event_date))"

text \<open>The body of the loop, lines 178 to 192.\<close>

definition event_body ::
  "(string \<Rightarrow> py_datetime option) \<Rightarrow> locals \<Rightarrow> json \<Rightarrow> error + locals" where
  "event_body parse st event =
     bind_err (decode_event parse event) (\<lambda>(event_type, event_date).
     event_update st event_type event_date)"

fun for_events ::
  "(string \<Rightarrow> py_datetime option) \<Rightarrow> locals \<Rightarrow> json list \<Rightarrow> error + locals" where
  "for_events parse st [] = Inr st"
| "for_events parse st (event # rest) =
     bind_err (event_body parse st event) (\<lambda>st'. for_events parse st' rest)"

subsection \<open>One tracking result (lines 164 to 207)\<close>

text \<open>Lines 193 to 206: the latest event and the result record.\<close>

definition new_tracking_result :: "json \<Rightarrow> json \<Rightarrow> json \<Rightarrow> locals \<Rightarrow> TrackingResult" where
  "new_tracking_result number uid carrier st =
     \<lparr>is_valid = True, tracking_number = number, unique_id = uid, carrier_code = carrier,
      is_delivered = Some (delivered st), is_shipped = Some (shipped st),
      date_ship = ship_date st, date_delivery = delivery_date st,
      latest_status = Some \<lparr>datetime = latest_date st, type = latest_type st\<rparr>,
      events = Some (events_var st), package = None\<rparr>"

text \<open>The body of a loop either returns from the function or goes on with the list of
  results built so far.\<close>

datatype flow =
    Return TrackingResult
  | Continue "TrackingResult list"

definition result_body ::
  "(string \<Rightarrow> py_datetime option) \<Rightarrow> TrackingResult list \<Rightarrow> json \<Rightarrow> error + flow" where
  "result_body parse tracking_results tracking_result =
     bind_err (getitem tracking_result ''trackingNumberInfo'') (\<lambda>tracking_number_info.
     bind_err (getitem tracking_number_info ''trackingNumber'') (\<lambda>number.
     bind_err (getitem tracking_number_info ''trackingNumberUniqueId'') (\<lambda>uid.
     bind_err (getitem tracking_number_info ''carrierCode'') (\<lambda>carrier.
     bind_err (contains tracking_result ''dateAndTimes'') (\<lambda>present.
     if \<not> present then Inr (Return TrackingResult_False)
     else
       bind_err (getitem tracking_result ''dateAndTimes'') (\<lambda>date_and_times.
       bind_err (iterate date_and_times) (\<lambda>raw_events.
       bind_err (for_events parse init_locals raw_events) (\<lambda>st.
       Inr (Continue (tracking_results @ [new_tracking_result number uid carrier st]))))))))))"

fun for_results ::
  "(string \<Rightarrow> py_datetime option) \<Rightarrow> TrackingResult list \<Rightarrow> json list \<Rightarrow> error + flow" where
  "for_results parse tracking_results [] = Inr (Continue tracking_results)"
| "for_results parse tracking_results (tracking_result # rest) =
     bind_err (result_body parse tracking_results tracking_result) (\<lambda>fl.
     case fl of
       Return r \<Rightarrow> Inr (Return r)
     | Continue tracking_results' \<Rightarrow> for_results parse tracking_results' rest)"

subsection \<open>The loop over \<open>completeTrackResults\<close> (lines 161 to 207)\<close>

definition index_body ::
  "(string \<Rightarrow> py_datetime option) \<Rightarrow> TrackingResult list \<Rightarrow> json \<Rightarrow> error + flow" where
  "index_body parse tracking_results track_index =
     bind_err (getitem track_index ''trackResults'') (\<lambda>track_results.
     bind_err (iterate track_results) (\<lambda>blocks.
     for_results parse tracking_results blocks))"

fun for_indexes ::
  "(string \<Rightarrow> py_datetime option) \<Rightarrow> TrackingResult list \<Rightarrow> json list \<Rightarrow> error + flow" where
  "for_indexes parse tracking_results [] = Inr (Continue tracking_results)"
| "for_indexes parse tracking_results (track_index # rest) =
     bind_err (index_body parse tracking_results track_index) (\<lambda>fl.
     case fl of
       Return r \<Rightarrow> Inr (Return r)
     | Continue tracking_results' \<Rightarrow> for_indexes parse tracking_results' rest)"

subsection \<open>The choice among the results (lines 209 to 215)\<close>

text \<open>\<open>result.latest_status.datetime\<close>: an attribute of \<open>None\<close> raises.\<close>

definition latest_status_datetime :: "TrackingResult \<Rightarrow> error + py_datetime option" where
  "latest_status_datetime result =
     (case latest_status result of None \<Rightarrow> Inl AttributeError | Some ev \<Rightarrow> Inr (datetime ev))"

text \<open>The loop of lines 211 to 214 on its two variables. The result \<open>None\<close> is Python's
  \<open>None\<close>.\<close>

fun for_latest ::
  "py_datetime option \<Rightarrow> TrackingResult option \<Rightarrow> TrackingResult list \<Rightarrow>
   error + TrackingResult option" where
  "for_latest latest_date' latest_result [] = Inr latest_result"
| "for_latest latest_date' latest_result (result # rest) =
     bind_err (if latest_result = None then Inr True
               else bind_err (latest_status_datetime result) (\<lambda>d. py_gt d latest_date'))
       (\<lambda>later.
          if later then
            bind_err (latest_status_datetime result) (\<lambda>d. for_latest d (Some result) rest)
          else for_latest latest_date' latest_result rest)"

definition select_latest :: "TrackingResult list \<Rightarrow> error + TrackingResult option" where
  "select_latest tracking_results = for_latest None None tracking_results"

subsection \<open>The whole method (lines 145 to 215)\<close>

text \<open>\<open>response.raise_for_status()\<close> raises \<open>HTTPError\<close> for the status codes 400 to
  599.\<close>

definition raise_for_status :: "response \<Rightarrow> error + unit" where
  "raise_for_status r =
     (if 400 \<le> status_code r \<and> status_code r < 600 then Inl HTTPError else Inr ())"

text \<open>\<open>response.json()\<close>.\<close>

definition response_json :: "response \<Rightarrow> error + json" where
  "response_json r = (case json_body r of None \<Rightarrow> Inl JSONDecodeError | Some v \<Rightarrow> Inr v)"

text \<open>
  The transport is the parameter \<open>post\<close>: the response \<open>requests.request\<close> obtains for
  the payload built from \<open>number\<close>, or the exception it raises. Only the \<open>HTTPError\<close>
  of \<open>raise_for_status\<close> is caught (lines 153 to 156).
\<close>

definition track_by_number ::
  "(string \<Rightarrow> error + response) \<Rightarrow> (string \<Rightarrow> py_datetime option) \<Rightarrow> string \<Rightarrow>
   error + TrackingResult option" where
  "track_by_number post parse number =
     bind_err (post number) (\<lambda>response.
     case raise_for_status response of
       Inl e \<Rightarrow> (if e = HTTPError then Inr (Some TrackingResult_False) else Inl e)
     | Inr _ \<Rightarrow>
         bind_err (response_json response) (\<lambda>response_data.
         bind_err (contains response_data ''errors'') (\<lambda>has_errors.
         if has_errors then Inr (Some TrackingResult_False)
         else
           bind_err (getitem response_data ''output'') (\<lambda>output.
           bind_err (getitem output ''completeTrackResults'') (\<lambda>complete.
           bind_err (iterate complete) (\<lambda>indexes.
           bind_err (for_indexes parse [] indexes) (\<lambda>fl.
           case fl of
             Return r \<Rightarrow> Inr (Some r)
           | Continue tracking_results \<Rightarrow> select_latest tracking_results)))))))"

section \<open>\<open>FedexAPI.download_pod\<close>\<close>

text \<open>\<open>s.split(c)\<close> for a one-character separator: the pieces between the
  occurrences of \<open>c\<close>, never an empty list.\<close>

fun str_split :: "string \<Rightarrow> char \<Rightarrow> string list" where
  "str_split [] c = [[]]"
| "str_split (x # xs) c =
     (if x = c then [] # str_split xs c
      else (case str_split xs c of [] \<Rightarrow> [[x]] | w # ws \<Rightarrow> (x # w) # ws))"

text \<open>\<open>v.split('~')\<close> on a value that may not be a string: only \<open>str\<close> has the
  method.\<close>

fun json_split :: "json \<Rightarrow> error + string list" where
  "json_split (JStr s) = Inr (str_split s (CHR ''~''))"
| "json_split _ = Inl AttributeError"

text \<open>\<open>xs[i]\<close> for a non-negative index.\<close>

definition list_getitem :: "'a list \<Rightarrow> nat \<Rightarrow> error + 'a" where
  "list_getitem xs i = (if i < length xs then Inr (xs ! i) else Inl IndexError)"

text \<open>The URL of line 226.\<close>

definition pod_url :: "string \<Rightarrow> string \<Rightarrow> string" where
  "pod_url number qualifier =
     ''https://www.fedex.com/trackingCal/retrievePDF.jsp?accountNbr=&anon=true&appType=&destCountry=&locale=en_US&shipDate=&trackingCarrier=FDXA&trackingNumber=''
     @ number @ ''&trackingQualifier='' @ qualifier @ ''&type=SPOD''"

text \<open>
  \<open>_download_file\<close> is the parameter \<open>fetch\<close> (\<open>Some e\<close> where it raises \<open>e\<close>), and the
  list \<open>calls\<close> records every call made to it, the URL and the file name, in order. The
  method returns nothing, so its outcome is the exception raised, if any, and the calls.
\<close>

definition download_file ::
  "(string \<Rightarrow> string \<Rightarrow> error option) \<Rightarrow> (string \<times> string) list \<Rightarrow> string \<Rightarrow> string \<Rightarrow>
   error option \<times> (string \<times> string) list" where
  "download_file fetch calls url filename = (fetch url filename, calls @ [(url, filename)])"

definition download_pod ::
  "(string \<Rightarrow> error + response) \<Rightarrow> (string \<Rightarrow> py_datetime option) \<Rightarrow>
   (string \<Rightarrow> string \<Rightarrow> error option) \<Rightarrow> (string \<times> string) list \<Rightarrow> string \<Rightarrow> string \<Rightarrow>
   error option \<times> (string \<times> string) list" where
  "download_pod post parse fetch calls unique_id' new_filename =
     (case (if length (str_split unique_id' (CHR ''~'')) = 1 then
              bind_err (track_by_number post parse unique_id') (\<lambda>result.
              case result of
                None \<Rightarrow> Inl AttributeError
              | Some r \<Rightarrow> if \<not> is_valid r then Inl InvalidRequestError
                          else Inr (unique_id r))
            else Inr (JStr unique_id')) of
        Inl e \<Rightarrow> (Some e, calls)
      | Inr uid \<Rightarrow>
          (case bind_err (json_split uid) (\<lambda>parts.
                bind_err (list_getitem parts 0) (\<lambda>qualifier.
                bind_err (json_split uid) (\<lambda>parts'.
                bind_err (list_getitem parts' 1) (\<lambda>number.
                Inr (pod_url number qualifier))))) of
             Inl e \<Rightarrow> (Some e, calls)
           | Inr url \<Rightarrow> download_file fetch calls url new_filename))"

section \<open>Vocabulary of the properties\<close>

text \<open>Whether a datetime carries a UTC offset, and the point on the time line that
  \<open>datetime_gt\<close> compares: the wall-clock time less the offset.\<close>

fun is_aware :: "py_datetime \<Rightarrow> bool" where
  "is_aware (Aware a off) = True"
| "is_aware (Naive a) = False"

fun instant :: "py_datetime \<Rightarrow> int" where
  "instant (Aware a off) = a - off"
| "instant (Naive a) = a"

text \<open>Timestamps that Python can order against each other: all of them aware, or
  all of them naive.\<close>

definition comparable :: "py_datetime list \<Rightarrow> bool" where
  "comparable ds = (list_all is_aware ds \<or> list_all (\<lambda>d. \<not> is_aware d) ds)"

text \<open>Position \<open>i\<close> holds the greatest instant of \<open>ds\<close>, and no earlier position
  does.\<close>

definition first_latest :: "py_datetime list \<Rightarrow> nat \<Rightarrow> bool" where
  "first_latest ds i =
     (i < length ds \<and>
      (\<forall>j < length ds. instant (ds ! j) \<le> instant (ds ! i)) \<and>
      (\<forall>j < i. instant (ds ! j) < instant (ds ! i)))"

text \<open>The \<open>DateAndTimeEvent\<close> built on line 191 from a decoded event.\<close>

definition as_event :: "Event \<times> py_datetime \<Rightarrow> DateAndTimeEvent" where
  "as_event p = \<lparr>datetime = Some (snd p), type = Some (fst p)\<rparr>"

text \<open>The invariant of the event loop after the decoded events \<open>seen\<close>.\<close>

definition latest_inv :: "(Event \<times> py_datetime) list \<Rightarrow> locals \<Rightarrow> bool" where
  "latest_inv seen st =
     (events_var st = map as_event seen \<and>
      (if seen = [] then latest_type st = None \<and> latest_date st = None
       else (\<exists>i. first_latest (map snd seen) i \<and>
                 latest_date st = Some (snd (seen ! i)) \<and>
                 latest_type st = Some (fst (seen ! i)))))"

section \<open>Example payloads\<close>

text \<open>A parser that knows four timestamps, three at offset zero and one six hours
  west of it; the second and the third denote the same instant.\<close>

definition example_parse :: "string \<Rightarrow> py_datetime option" where
  "example_parse =
     map_of
       [(''2022-02-01T08:00:00+00:00'', Aware 1643702400000000 0),
        (''2022-02-05T14:30:00+00:00'', Aware 1644071400000000 0),
        (''2022-02-05T08:30:00-06:00'', Aware 1644049800000000 (- 21600000000)),
        (''2022-02-07T12:00:00+00:00'', Aware 1644235200000000 0)]"

definition raw_event :: "string \<Rightarrow> string \<Rightarrow> json" where
  "raw_event stamp tag = JDict [(''dateTime'', JStr stamp), (''type'', JStr tag)]"

definition raw_info :: json where
  "raw_info =
     JDict [(''trackingNumber'', JStr ''123456789012''),
            (''trackingNumberUniqueId'', JStr ''2459612000~123456789012~FX''),
            (''carrierCode'', JStr ''FDXE'')]"

definition raw_result :: "json list \<Rightarrow> json" where
  "raw_result raws = JDict [(''trackingNumberInfo'', raw_info), (''dateAndTimes'', JList raws)]"

definition raw_index :: "json list \<Rightarrow> json" where
  "raw_index blocks =
     JDict [(''trackingNumber'', JStr ''123456789012''), (''trackResults'', JList blocks)]"

definition raw_output :: "json list \<Rightarrow> json" where
  "raw_output blocks = JDict [(''completeTrackResults'', JList [raw_index blocks])]"

definition raw_data :: "json list \<Rightarrow> json" where
  "raw_data blocks =
     JDict [(''transactionId'', JStr ''624deea6''), (''output'', raw_output blocks)]"

text \<open>A tracking result with its identifiers and no \<open>dateAndTimes\<close> key.\<close>

definition result_without_events :: json where
  "result_without_events = JDict [(''trackingNumberInfo'', raw_info)]"

text \<open>The body of an answer that reports an error.\<close>

definition error_data :: json where
  "error_data =
     JDict [(''transactionId'', JStr ''624deea6''),
            (''errors'', JList [JDict [(''code'', JStr ''TRACKING.TRACKINGNUMBER.NOTFOUND''),
                                       (''message'', JStr ''Tracking number cannot be found.'')]])]"

definition ok_response :: "json \<Rightarrow> response" where
  "ok_response data = \<lparr>status_code = 200, json_body = Some data\<rparr>"

text \<open>A transport that answers every number with status 200 and the body \<open>data\<close>.\<close>

definition example_post :: "json \<Rightarrow> string \<Rightarrow> error + response" where
  "example_post data number = Inr (ok_response data)"

text \<open>A transport that answers every number with the status \<open>code\<close> and a body that
  is not JSON.\<close>

definition status_post :: "nat \<Rightarrow> string \<Rightarrow> error + response" where
  "status_post code number = Inr \<lparr>status_code = code, json_body = None\<rparr>"

text \<open>A \<open>_download_file\<close> that always succeeds.\<close>

definition example_fetch :: "string \<Rightarrow> string \<Rightarrow> error option" where
  "example_fetch url filename = None"

text \<open>The result built from a tracking result whose one event is \<open>SHIP\<close> at \<open>d\<close>.\<close>

definition example_result :: "string \<Rightarrow> py_datetime \<Rightarrow> TrackingResult" where
  "example_result uid d =
     \<lparr>is_valid = True, tracking_number = JStr ''123456789012'', unique_id = JStr uid,
      carrier_code = JStr ''FDXE'', is_delivered = Some False, is_shipped = Some True,
      date_ship = Some d, date_delivery = None,
      latest_status = Some \<lparr>datetime = Some d, type = Some SHIP\<rparr>,
      events = Some [\<lparr>datetime = Some d, type = Some SHIP\<rparr>], package = None\<rparr>"

text \<open>The result built from a tracking result whose \<open>dateAndTimes\<close> list is empty.\<close>

definition example_empty_result :: TrackingResult where
  "example_empty_result =
     \<lparr>is_valid = True, tracking_number = JStr ''123456789012'',
      unique_id = JStr ''2459612000~123456789012~FX'', carrier_code = JStr ''FDXE'',
      is_delivered = Some False, is_shipped = Some False,
      date_ship = None, date_delivery = None,
      latest_status = Some \<lparr>datetime = None, type = None\<rparr>,
      events = Some [], package = None\<rparr>"

section \<open>Lemmas on the Python operations\<close>

lemma getitem_contains: "getitem x k = Inr v \<Longrightarrow> contains x k = Inr True"
  by (cases x) (auto split: option.splits)

lemma datetime_gt_comparable:
  "comparable ds \<Longrightarrow> d \<in> set ds \<Longrightarrow> e \<in> set ds \<Longrightarrow>
   datetime_gt d e = Inr (instant e < instant d)"
  by (cases d; cases e) (auto simp: comparable_def list_all_iff)

lemma comparable_append_left: "comparable (xs @ ys) \<Longrightarrow> comparable xs"
  by (auto simp: comparable_def)

section \<open>The first greatest instant\<close>

lemma first_latest_single: "first_latest [d] 0"
  by (simp add: first_latest_def)

lemma first_latest_snoc_new:
  assumes "first_latest ds i" and "instant (ds ! i) < instant d"
  shows "first_latest (ds @ [d]) (length ds)"
  unfolding first_latest_def
proof (intro conjI allI impI)
  fix j assume "j < length (ds @ [d])"
  then have "j < length ds \<or> j = length ds" by auto
  then show "instant ((ds @ [d]) ! j) \<le> instant ((ds @ [d]) ! length ds)"
  proof
    assume "j < length ds"
    with assms have "instant (ds ! j) < instant d" by (force simp: first_latest_def)
    with \<open>j < length ds\<close> show ?thesis by (simp add: nth_append)
  qed simp
next
  fix j assume j: "j < length ds"
  with assms have "instant (ds ! j) < instant d" by (force simp: first_latest_def)
  with j show "instant ((ds @ [d]) ! j) < instant ((ds @ [d]) ! length ds)"
    by (simp add: nth_append)
qed simp

lemma first_latest_snoc_keep:
  assumes "first_latest ds i" and "\<not> instant (ds ! i) < instant d"
  shows "first_latest (ds @ [d]) i"
  unfolding first_latest_def
proof (intro conjI allI impI)
  show i: "i < length (ds @ [d])" using assms by (simp add: first_latest_def)
  fix j assume "j < length (ds @ [d])"
  then have "j < length ds \<or> j = length ds" by auto
  then show "instant ((ds @ [d]) ! j) \<le> instant ((ds @ [d]) ! i)"
    using assms by (auto simp: first_latest_def nth_append)
next
  fix j assume "j < i"
  then show "instant ((ds @ [d]) ! j) < instant ((ds @ [d]) ! i)"
    using assms by (auto simp: first_latest_def nth_append)
qed

lemma first_latest_unique:
  assumes "first_latest ds i" and "first_latest ds j"
  shows "i = j"
proof (rule ccontr)
  assume "i \<noteq> j"
  then consider "i < j" | "j < i" by linarith
  then show False
  proof cases
    case 1
    with assms have "instant (ds ! i) < instant (ds ! j)" "instant (ds ! j) \<le> instant (ds ! i)"
      by (auto simp: first_latest_def)
    then show False by simp
  next
    case 2
    with assms have "instant (ds ! j) < instant (ds ! i)" "instant (ds ! i) \<le> instant (ds ! j)"
      by (auto simp: first_latest_def)
    then show False by simp
  qed
qed

section \<open>The event loop on comparable timestamps\<close>

lemma update_dates_latest [simp]:
  "latest_date (update_dates st t d) = latest_date st"
  "latest_type (update_dates st t d) = latest_type st"
  "events_var (update_dates st t d) = events_var st"
  by (simp_all add: update_dates_def)

lemma init_locals_inv: "latest_inv [] init_locals"
  by (simp add: latest_inv_def init_locals_def)

lemma event_update_first:
  assumes "latest_inv [] st"
  shows "\<exists>st'. event_update st t d = Inr st' \<and> latest_inv [(t, d)] st'"
  using assms first_latest_single [of d]
  by (auto simp: latest_inv_def event_update_def update_latest_def append_event_def as_event_def
           intro!: exI [of _ 0])

lemma event_update_later:
  assumes inv: "latest_inv seen st" and ne: "seen \<noteq> []"
    and cmp: "comparable (map snd (seen @ [(t, d)]))"
  shows "\<exists>st'. event_update st t d = Inr st' \<and> latest_inv (seen @ [(t, d)]) st'"
proof -
  from inv ne obtain i where fl: "first_latest (map snd seen) i"
    and ld: "latest_date st = Some (snd (seen ! i))"
    and lt: "latest_type st = Some (fst (seen ! i))"
    and ev: "events_var st = map as_event seen"
    by (auto simp: latest_inv_def)
  from fl have i: "i < length seen" by (simp add: first_latest_def)
  let ?m = "snd (seen ! i)"
  have m: "map snd seen ! i = ?m" using i by simp
  have "?m \<in> set (map snd (seen @ [(t, d)]))" using i by force
  moreover have "d \<in> set (map snd (seen @ [(t, d)]))" by simp
  ultimately have gt: "datetime_gt d ?m = Inr (instant ?m < instant d)"
    using cmp datetime_gt_comparable by blast
  show ?thesis
  proof (cases "instant ?m < instant d")
    case True
    with fl m have "first_latest (map snd (seen @ [(t, d)])) (length seen)"
      using first_latest_snoc_new [of "map snd seen" i d] by simp
    then have "latest_inv (seen @ [(t, d)])
        (append_event ((update_dates st t d)\<lparr>latest_date := Some d, latest_type := Some t\<rparr>) t d)"
      by (auto simp: latest_inv_def append_event_def ev as_event_def)
    then show ?thesis
      using True gt ld lt by (simp add: event_update_def update_latest_def)
  next
    case False
    with fl m have "first_latest (map snd (seen @ [(t, d)])) i"
      using first_latest_snoc_keep [of "map snd seen" i d] by simp
    then have "latest_inv (seen @ [(t, d)]) (append_event (update_dates st t d) t d)"
      using i ld lt by (auto simp: latest_inv_def append_event_def ev as_event_def nth_append)
    then show ?thesis
      using False gt ld lt by (simp add: event_update_def update_latest_def)
  qed
qed

lemma event_update_inv:
  assumes "latest_inv seen st" and "comparable (map snd (seen @ [(t, d)]))"
  shows "\<exists>st'. event_update st t d = Inr st' \<and> latest_inv (seen @ [(t, d)]) st'"
  using assms event_update_first [of st t d] event_update_later [of seen st t d]
  by (cases "seen = []") auto

lemma for_events_inv:
  assumes "list_all2 (\<lambda>raw p. decode_event parse raw = Inr p) raws des"
    and "latest_inv seen st"
    and "comparable (map snd (seen @ des))"
  shows "\<exists>st'. for_events parse st raws = Inr st' \<and> latest_inv (seen @ des) st'"
  using assms
proof (induction raws des arbitrary: seen st rule: list_all2_induct)
  case Nil
  then show ?case by simp
next
  case (Cons raw raws p des)
  obtain t d where p: "p = (t, d)" by (cases p)
  from Cons.prems(2) have "comparable (map snd (seen @ [(t, d)]))"
    using comparable_append_left [of "map snd (seen @ [(t, d)])" "map snd des"] by (simp add: p)
  with Cons.prems(1) obtain st1 where
    st1: "event_update st t d = Inr st1" and inv1: "latest_inv (seen @ [(t, d)]) st1"
    using event_update_inv by blast
  from Cons.prems(2) have "comparable (map snd ((seen @ [(t, d)]) @ des))" by (simp add: p)
  with Cons.IH [OF inv1] obtain st' where
    "for_events parse st1 raws = Inr st'" "latest_inv ((seen @ [(t, d)]) @ des) st'" by blast
  with Cons.hyps(1) st1 p show ?case by (simp add: event_body_def)
qed

section \<open>One tracking result with its identifiers and events\<close>

lemma result_body_events:
  assumes "getitem tr ''trackingNumberInfo'' = Inr info"
    and "getitem info ''trackingNumber'' = Inr number"
    and "getitem info ''trackingNumberUniqueId'' = Inr uid"
    and "getitem info ''carrierCode'' = Inr carrier"
    and "getitem tr ''dateAndTimes'' = Inr dts"
    and "iterate dts = Inr raws"
  shows "result_body parse acc tr =
           bind_err (for_events parse init_locals raws) (\<lambda>st.
             Inr (Continue (acc @ [new_tracking_result number uid carrier st])))"
  using assms getitem_contains [OF assms(5)] by (simp add: result_body_def)

lemma result_body_comparable:
  assumes "getitem tr ''trackingNumberInfo'' = Inr info"
    and "getitem info ''trackingNumber'' = Inr number"
    and "getitem info ''trackingNumberUniqueId'' = Inr uid"
    and "getitem info ''carrierCode'' = Inr carrier"
    and "getitem tr ''dateAndTimes'' = Inr dts"
    and "iterate dts = Inr raws"
    and "list_all2 (\<lambda>raw p. decode_event parse raw = Inr p) raws des"
    and "comparable (map snd des)"
  shows "\<exists>st. result_body parse acc tr =
                 Inr (Continue (acc @ [new_tracking_result number uid carrier st])) \<and>
              latest_inv des st"
proof -
  from for_events_inv [OF assms(7) init_locals_inv] assms(8) obtain st where
    "for_events parse init_locals raws = Inr st" "latest_inv des st" by auto
  then show ?thesis
    using result_body_events [OF assms(1-6), of parse acc] by (intro exI [of _ st]) simp
qed

section \<open>Decoding the example events\<close>

lemma example_decode:
  "decode_event example_parse (raw_event ''2022-02-01T08:00:00+00:00'' ''SHIP'')
     = Inr (SHIP, Aware 1643702400000000 0)"
  "decode_event example_parse (raw_event ''2022-02-05T14:30:00+00:00'' ''ACTUAL_DELIVERY'')
     = Inr (ACTUAL_DELIVERY, Aware 1644071400000000 0)"
  by (simp_all add: decode_event_def raw_event_def example_parse_def Event_members_def)

lemma example_decode_more:
  "decode_event example_parse (raw_event ''2022-02-01T08:00:00+00:00'' ''COMMITMENT'')
     = Inr (COMMITMENT, Aware 1643702400000000 0)"
  "decode_event example_parse (raw_event ''2022-02-05T14:30:00+00:00'' ''SHIP'')
     = Inr (SHIP, Aware 1644071400000000 0)"
  "decode_event example_parse (raw_event ''2022-02-05T08:30:00-06:00'' ''ACTUAL_DELIVERY'')
     = Inr (ACTUAL_DELIVERY, Aware 1644049800000000 (- 21600000000))"
  "decode_event example_parse (raw_event ''2022-02-07T12:00:00+00:00'' ''ESTIMATED_DELIVERY'')
     = Inr (ESTIMATED_DELIVERY, Aware 1644235200000000 0)"
  by (simp_all add: decode_event_def raw_event_def example_parse_def Event_members_def)

lemma example_result_keys:
  "getitem (raw_result raws) ''trackingNumberInfo'' = Inr raw_info"
  "getitem (raw_result raws) ''dateAndTimes'' = Inr (JList raws)"
  "getitem raw_info ''trackingNumber'' = Inr (JStr ''123456789012'')"
  "getitem raw_info ''trackingNumberUniqueId'' = Inr (JStr ''2459612000~123456789012~FX'')"
  "getitem raw_info ''carrierCode'' = Inr (JStr ''FDXE'')"
  by (simp_all add: raw_result_def raw_info_def)

lemma example_ship_result:
  "result_body example_parse acc (raw_result [raw_event ''2022-02-01T08:00:00+00:00'' ''SHIP'']) =
     Inr (Continue (acc @
       [example_result ''2459612000~123456789012~FX'' (Aware 1643702400000000 0)]))"
  by (simp add: result_body_events [OF example_result_keys(1) example_result_keys(3)
        example_result_keys(4) example_result_keys(5) example_result_keys(2)]
      event_body_def example_decode event_update_def update_dates_def update_latest_def
      append_event_def init_locals_def new_tracking_result_def example_result_def)

lemma track_by_number_example:
  "track_by_number (example_post (raw_data blocks)) parse number =
     bind_err (for_results parse [] blocks) (\<lambda>fl.
       case fl of Return r \<Rightarrow> Inr (Some r)
       | Continue tracking_results \<Rightarrow> select_latest tracking_results)"
  by (cases "for_results parse [] blocks")
     (simp_all add: track_by_number_def example_post_def ok_response_def raise_for_status_def
        response_json_def raw_data_def raw_output_def raw_index_def index_body_def
        split: flow.splits)

section \<open>The events of a tracking result\<close>

text \<open>
  C9. A tracking result whose identifiers and \<open>dateAndTimes\<close> are present, whose raw
  events decode, one by one, to the sequence \<open>des\<close>, and whose timestamps are
  comparable, is turned into a result whose \<open>events\<close> field is \<open>des\<close> itself: the same
  events in the order received, every duplicate kept.
\<close>

theorem events_in_received_order:
  assumes "getitem tr ''trackingNumberInfo'' = Inr info"
    and "getitem info ''trackingNumber'' = Inr number"
    and "getitem info ''trackingNumberUniqueId'' = Inr uid"
    and "getitem info ''carrierCode'' = Inr carrier"
    and "getitem tr ''dateAndTimes'' = Inr dts"
    and "iterate dts = Inr raws"
    and "list_all2 (\<lambda>raw p. decode_event parse raw = Inr p) raws des"
    and "comparable (map snd des)"
  shows "\<exists>r. result_body parse acc tr = Inr (Continue (acc @ [r])) \<and>
             events r = Some (map (\<lambda>p. \<lparr>datetime = Some (snd p), type = Some (fst p)\<rparr>) des)"
proof -
  from result_body_comparable [OF assms, of acc] obtain st where
    r: "result_body parse acc tr =
          Inr (Continue (acc @ [new_tracking_result number uid carrier st]))"
    and inv: "latest_inv des st" by blast
  from inv have "events_var st = map (\<lambda>p. \<lparr>datetime = Some (snd p), type = Some (fst p)\<rparr>) des"
    by (simp add: latest_inv_def as_event_def)
  with r show ?thesis by (simp add: new_tracking_result_def)
qed

text \<open>An unsorted sequence with a repeated event: the delivery first, then the same
  \<open>SHIP\<close> event twice.\<close>

theorem events_in_received_order_witness:
  "\<exists>r. result_body example_parse []
          (raw_result [raw_event ''2022-02-05T14:30:00+00:00'' ''ACTUAL_DELIVERY'',
                       raw_event ''2022-02-01T08:00:00+00:00'' ''SHIP'',
                       raw_event ''2022-02-01T08:00:00+00:00'' ''SHIP'']) = Inr (Continue [r]) \<and>
       events r = Some [\<lparr>datetime = Some (Aware 1644071400000000 0), type = Some ACTUAL_DELIVERY\<rparr>,
                        \<lparr>datetime = Some (Aware 1643702400000000 0), type = Some SHIP\<rparr>,
                        \<lparr>datetime = Some (Aware 1643702400000000 0), type = Some SHIP\<rparr>]"
proof -
  let ?raws = "[raw_event ''2022-02-05T14:30:00+00:00'' ''ACTUAL_DELIVERY'',
                raw_event ''2022-02-01T08:00:00+00:00'' ''SHIP'',
                raw_event ''2022-02-01T08:00:00+00:00'' ''SHIP'']"
  let ?des = "[(ACTUAL_DELIVERY, Aware 1644071400000000 0),
               (SHIP, Aware 1643702400000000 0), (SHIP, Aware 1643702400000000 0)]"
  have h6: "iterate (JList ?raws) = Inr ?raws" by simp
  have h7: "list_all2 (\<lambda>raw p. decode_event example_parse raw = Inr p) ?raws ?des"
    by (simp add: example_decode)
  have h8: "comparable (map snd ?des)" by (simp add: comparable_def)
  from events_in_received_order
         [OF example_result_keys(1) example_result_keys(3) example_result_keys(4)
             example_result_keys(5) example_result_keys(2) h6 h7 h8, of "[]"]
  show ?thesis by simp
qed

section \<open>The latest event of a tracking result\<close>

text \<open>
  C4. A tracking result whose identifiers and \<open>dateAndTimes\<close> are present, whose raw
  events decode to the non-empty sequence \<open>des\<close>, and whose timestamps are comparable,
  is turned into a result whose \<open>latest_status\<close> is the event at a position \<open>i\<close> of
  \<open>des\<close> such that no event has a later instant and every event before position \<open>i\<close>
  has a strictly earlier one: the first event of the greatest timestamp.
\<close>

theorem latest_status_first_greatest:
  assumes "getitem tr ''trackingNumberInfo'' = Inr info"
    and "getitem info ''trackingNumber'' = Inr number"
    and "getitem info ''trackingNumberUniqueId'' = Inr uid"
    and "getitem info ''carrierCode'' = Inr carrier"
    and "getitem tr ''dateAndTimes'' = Inr dts"
    and "iterate dts = Inr raws"
    and "list_all2 (\<lambda>raw p. decode_event parse raw = Inr p) raws des"
    and "comparable (map snd des)"
    and "des \<noteq> []"
  shows "\<exists>r i. result_body parse acc tr = Inr (Continue (acc @ [r])) \<and>
               first_latest (map snd des) i \<and>
               latest_status r = Some \<lparr>datetime = Some (snd (des ! i)), type = Some (fst (des ! i))\<rparr>"
proof -
  from result_body_comparable [OF assms(1-8), of acc] obtain st where
    r: "result_body parse acc tr =
          Inr (Continue (acc @ [new_tracking_result number uid carrier st]))"
    and inv: "latest_inv des st" by blast
  from inv assms(9) obtain i where "first_latest (map snd des) i"
    "latest_date st = Some (snd (des ! i))" "latest_type st = Some (fst (des ! i))"
    by (auto simp: latest_inv_def)
  with r show ?thesis
    by (intro exI [of _ "new_tracking_result number uid carrier st"] exI [of _ i])
       (simp add: new_tracking_result_def)
qed

text \<open>The tie of the specification: a commitment, then a \<open>SHIP\<close> event and a delivery at
  the same instant (written at two UTC offsets). The latest event is the \<open>SHIP\<close>
  event.\<close>

theorem latest_status_first_greatest_witness:
  "\<exists>r. result_body example_parse []
          (raw_result [raw_event ''2022-02-01T08:00:00+00:00'' ''COMMITMENT'',
                       raw_event ''2022-02-05T14:30:00+00:00'' ''SHIP'',
                       raw_event ''2022-02-05T08:30:00-06:00'' ''ACTUAL_DELIVERY'']) = Inr (Continue [r]) \<and>
       latest_status r = Some \<lparr>datetime = Some (Aware 1644071400000000 0), type = Some SHIP\<rparr>"
proof -
  let ?raws = "[raw_event ''2022-02-01T08:00:00+00:00'' ''COMMITMENT'',
                raw_event ''2022-02-05T14:30:00+00:00'' ''SHIP'',
                raw_event ''2022-02-05T08:30:00-06:00'' ''ACTUAL_DELIVERY'']"
  let ?des = "[(COMMITMENT, Aware 1643702400000000 0), (SHIP, Aware 1644071400000000 0),
               (ACTUAL_DELIVERY, Aware 1644049800000000 (- 21600000000))]"
  have h6: "iterate (JList ?raws) = Inr ?raws" by simp
  have h7: "list_all2 (\<lambda>raw p. decode_event example_parse raw = Inr p) ?raws ?des"
    by (simp add: example_decode_more)
  have h8: "comparable (map snd ?des)" by (simp add: comparable_def)
  have h9: "?des \<noteq> []" by simp
  from latest_status_first_greatest
         [OF example_result_keys(1) example_result_keys(3) example_result_keys(4)
             example_result_keys(5) example_result_keys(2) h6 h7 h8 h9, of "[]"]
  obtain r i where r: "result_body example_parse [] (raw_result ?raws) = Inr (Continue [r])"
    and fl: "first_latest (map snd ?des) i"
    and ls: "latest_status r = Some \<lparr>datetime = Some (snd (?des ! i)), type = Some (fst (?des ! i))\<rparr>"
    by auto
  have "first_latest (map snd ?des) 1"
    by (simp add: first_latest_def less_Suc_eq numeral_2_eq_2 numeral_3_eq_3)
  with fl have "i = 1" by (rule first_latest_unique)
  with r ls show ?thesis by simp
qed

text \<open>
  C10. Under the same conditions the result is valid, its \<open>events\<close> list is the decoded
  sequence, and its \<open>latest_status\<close> is the element of that list at the first position
  of the greatest timestamp: the timestamp reported is the greatest one, and the type
  reported is the type of the very event that carries it.
\<close>

theorem latest_status_is_greatest_event:
  assumes "getitem tr ''trackingNumberInfo'' = Inr info"
    and "getitem info ''trackingNumber'' = Inr number"
    and "getitem info ''trackingNumberUniqueId'' = Inr uid"
    and "getitem info ''carrierCode'' = Inr carrier"
    and "getitem tr ''dateAndTimes'' = Inr dts"
    and "iterate dts = Inr raws"
    and "list_all2 (\<lambda>raw p. decode_event parse raw = Inr p) raws des"
    and "comparable (map snd des)"
    and "des \<noteq> []"
  shows "\<exists>r evs i. result_body parse acc tr = Inr (Continue (acc @ [r])) \<and> is_valid r \<and>
           events r = Some evs \<and>
           evs = map (\<lambda>p. \<lparr>datetime = Some (snd p), type = Some (fst p)\<rparr>) des \<and>
           first_latest (map snd des) i \<and>
           latest_status r = Some (evs ! i) \<and>
           datetime (evs ! i) = Some (snd (des ! i)) \<and>
           type (evs ! i) = Some (fst (des ! i))"
proof -
  from result_body_comparable [OF assms(1-8), of acc] obtain st where
    r: "result_body parse acc tr =
          Inr (Continue (acc @ [new_tracking_result number uid carrier st]))"
    and inv: "latest_inv des st" by blast
  from inv assms(9) obtain i where fl: "first_latest (map snd des) i"
    and l: "latest_date st = Some (snd (des ! i))" "latest_type st = Some (fst (des ! i))"
    and ev: "events_var st = map as_event des"
    by (auto simp: latest_inv_def)
  from fl have i: "i < length des" by (simp add: first_latest_def)
  have evs: "events_var st = map (\<lambda>p. \<lparr>datetime = Some (snd p), type = Some (fst p)\<rparr>) des"
    using ev by (simp add: as_event_def)
  have "latest_status (new_tracking_result number uid carrier st) = Some (events_var st ! i)"
    using i l evs by (simp add: new_tracking_result_def)
  moreover have "datetime (events_var st ! i) = Some (snd (des ! i))"
    "type (events_var st ! i) = Some (fst (des ! i))"
    using i evs by simp_all
  ultimately show ?thesis
    using r fl evs
    by (intro exI [of _ "new_tracking_result number uid carrier st"]
              exI [of _ "events_var st"] exI [of _ i])
       (simp add: new_tracking_result_def)
qed

text \<open>A delivery on 5 February, an estimate for 7 February and a \<open>SHIP\<close> event on
  1 February, in this order: the latest event is the second element of the list, the
  estimate.\<close>

theorem latest_status_is_greatest_event_witness:
  "\<exists>r. result_body example_parse []
          (raw_result [raw_event ''2022-02-05T14:30:00+00:00'' ''ACTUAL_DELIVERY'',
                       raw_event ''2022-02-07T12:00:00+00:00'' ''ESTIMATED_DELIVERY'',
                       raw_event ''2022-02-01T08:00:00+00:00'' ''SHIP'']) = Inr (Continue [r]) \<and>
       is_valid r \<and>
       events r = Some [\<lparr>datetime = Some (Aware 1644071400000000 0), type = Some ACTUAL_DELIVERY\<rparr>,
                        \<lparr>datetime = Some (Aware 1644235200000000 0), type = Some ESTIMATED_DELIVERY\<rparr>,
                        \<lparr>datetime = Some (Aware 1643702400000000 0), type = Some SHIP\<rparr>] \<and>
       latest_status r =
         Some \<lparr>datetime = Some (Aware 1644235200000000 0), type = Some ESTIMATED_DELIVERY\<rparr>"
proof -
  let ?raws = "[raw_event ''2022-02-05T14:30:00+00:00'' ''ACTUAL_DELIVERY'',
                raw_event ''2022-02-07T12:00:00+00:00'' ''ESTIMATED_DELIVERY'',
                raw_event ''2022-02-01T08:00:00+00:00'' ''SHIP'']"
  let ?des = "[(ACTUAL_DELIVERY, Aware 1644071400000000 0),
               (ESTIMATED_DELIVERY, Aware 1644235200000000 0),
               (SHIP, Aware 1643702400000000 0)]"
  have h6: "iterate (JList ?raws) = Inr ?raws" by simp
  have h7: "list_all2 (\<lambda>raw p. decode_event example_parse raw = Inr p) ?raws ?des"
    by (simp add: example_decode example_decode_more)
  have h8: "comparable (map snd ?des)" by (simp add: comparable_def)
  have h9: "?des \<noteq> []" by simp
  from latest_status_is_greatest_event
         [OF example_result_keys(1) example_result_keys(3) example_result_keys(4)
             example_result_keys(5) example_result_keys(2) h6 h7 h8 h9, of "[]"]
  obtain r evs i where r: "result_body example_parse [] (raw_result ?raws) = Inr (Continue [r])"
    and v: "is_valid r" and e: "events r = Some evs"
    and evs: "evs = map (\<lambda>p. \<lparr>datetime = Some (snd p), type = Some (fst p)\<rparr>) ?des"
    and fl: "first_latest (map snd ?des) i"
    and ls: "latest_status r = Some (evs ! i)"
    by auto
  have "first_latest (map snd ?des) 1"
    by (simp add: first_latest_def less_Suc_eq numeral_2_eq_2 numeral_3_eq_3)
  with fl have "i = 1" by (rule first_latest_unique)
  with r v e evs ls show ?thesis by simp
qed

section \<open>A tracking result without events\<close>

text \<open>With the identifiers present and no event in \<open>dateAndTimes\<close>, the loop body never
  runs and lines 193 to 207 append a result built from the initial values.\<close>

lemma result_body_empty_events:
  assumes "getitem tr ''trackingNumberInfo'' = Inr info"
    and "getitem info ''trackingNumber'' = Inr number"
    and "getitem info ''trackingNumberUniqueId'' = Inr uid"
    and "getitem info ''carrierCode'' = Inr carrier"
    and "getitem tr ''dateAndTimes'' = Inr dts"
    and "iterate dts = Inr []"
  shows "result_body parse acc tr =
           Inr (Continue (acc @
             [\<lparr>is_valid = True, tracking_number = number, unique_id = uid,
               carrier_code = carrier, is_delivered = Some False, is_shipped = Some False,
               date_ship = None, date_delivery = None,
               latest_status = Some \<lparr>datetime = None, type = None\<rparr>,
               events = Some [], package = None\<rparr>]))"
  using result_body_events [OF assms, of parse acc]
  by (simp add: new_tracking_result_def init_locals_def)

lemma example_empty_block:
  "result_body example_parse acc (raw_result []) = Inr (Continue (acc @ [example_empty_result]))"
proof -
  have "iterate (JList []) = Inr []" by simp
  from result_body_empty_events
         [OF example_result_keys(1) example_result_keys(3) example_result_keys(4)
             example_result_keys(5) example_result_keys(2) this, of example_parse acc]
  show ?thesis by (simp add: example_empty_result_def)
qed

text \<open>
  C2. The claim says that a tracking result with an empty events sequence never yields
  a valid outcome. The code has no such check: where a missing \<open>dateAndTimes\<close> key
  makes line 176 return \<open>TrackingResult(False)\<close>, an empty \<open>dateAndTimes\<close> list goes
  on to line 193. For a response whose only tracking result has an empty list, the
  method returns a result with \<open>is_valid = True\<close> and a \<open>latest_status\<close> whose timestamp
  and type are both \<open>None\<close>.
\<close>

theorem empty_events_valid_outcome:
  "track_by_number (example_post (raw_data [raw_result []])) example_parse ''123456789012'' =
     Inr (Some
       \<lparr>is_valid = True, tracking_number = JStr ''123456789012'',
         unique_id = JStr ''2459612000~123456789012~FX'', carrier_code = JStr ''FDXE'',
         is_delivered = Some False, is_shipped = Some False,
         date_ship = None, date_delivery = None,
         latest_status = Some \<lparr>datetime = None, type = None\<rparr>,
         events = Some [], package = None\<rparr>)"
  by (simp add: track_by_number_example example_empty_block example_empty_result_def
        select_latest_def latest_status_datetime_def)

section \<open>An estimate after the delivery\<close>

text \<open>
  C1. The claim says that an \<open>ESTIMATED_DELIVERY\<close> event never replaces the date set
  by \<open>ACTUAL_DELIVERY\<close>, and the comment on the field \<open>date_delivery\<close> (line 108)
  reserves the estimate for a shipment that is not delivered. The code does otherwise:
  line 187 assigns \<open>delivery_date\<close> without looking at \<open>delivered\<close>. For a delivery on
  5 February followed in the payload by an estimate for 7 February, the result is
  delivered and its \<open>date_delivery\<close> is the estimate.
\<close>

theorem estimate_after_delivery:
  "track_by_number
     (example_post (raw_data
        [raw_result [raw_event ''2022-02-05T14:30:00+00:00'' ''ACTUAL_DELIVERY'',
                     raw_event ''2022-02-07T12:00:00+00:00'' ''ESTIMATED_DELIVERY'']]))
     example_parse ''123456789012'' =
     Inr (Some
       \<lparr>is_valid = True, tracking_number = JStr ''123456789012'',
         unique_id = JStr ''2459612000~123456789012~FX'', carrier_code = JStr ''FDXE'',
         is_delivered = Some True, is_shipped = Some False,
         date_ship = None, date_delivery = Some (Aware 1644235200000000 0),
         latest_status = Some \<lparr>datetime = Some (Aware 1644235200000000 0),
                                 type = Some ESTIMATED_DELIVERY\<rparr>,
         events = Some [\<lparr>datetime = Some (Aware 1644071400000000 0), type = Some ACTUAL_DELIVERY\<rparr>,
                        \<lparr>datetime = Some (Aware 1644235200000000 0), type = Some ESTIMATED_DELIVERY\<rparr>],
         package = None\<rparr>)"
  by (simp add: track_by_number_example result_body_def raw_result_def raw_info_def
        init_locals_def new_tracking_result_def select_latest_def latest_status_datetime_def
        event_body_def example_decode example_decode_more event_update_def update_dates_def
        update_latest_def append_event_def)

section \<open>The choice among several results\<close>

lemma for_latest_comparable:
  assumes "list_all2 (\<lambda>r d. latest_status_datetime r = Inr (Some d)) rs ds"
    and "length seen_r = length seen_d"
    and "first_latest seen_d i"
    and "comparable (seen_d @ ds)"
  shows "\<exists>k. first_latest (seen_d @ ds) k \<and>
             for_latest (Some (seen_d ! i)) (Some (seen_r ! i)) rs = Inr (Some ((seen_r @ rs) ! k))"
  using assms
proof (induction rs ds arbitrary: seen_r seen_d i rule: list_all2_induct)
  case Nil
  then show ?case by (auto simp: first_latest_def nth_append intro!: exI [of _ i])
next
  case (Cons r rs d ds)
  from Cons.prems(2) have i: "i < length seen_d" by (simp add: first_latest_def)
  have len: "length (seen_r @ [r]) = length (seen_d @ [d])" using Cons.prems(1) by simp
  have cmp: "comparable ((seen_d @ [d]) @ ds)" using Cons.prems(3) by simp
  have "seen_d ! i \<in> set (seen_d @ d # ds)" "d \<in> set (seen_d @ d # ds)" using i by auto
  with Cons.prems(3) have gt: "datetime_gt d (seen_d ! i) = Inr (instant (seen_d ! i) < instant d)"
    using datetime_gt_comparable by blast
  show ?case
  proof (cases "instant (seen_d ! i) < instant d")
    case True
    with Cons.prems(2) have "first_latest (seen_d @ [d]) (length seen_d)"
      by (rule first_latest_snoc_new)
    from Cons.IH [OF len this cmp] Cons.prems(1) Cons.hyps(1) gt True
    show ?thesis by (simp add: nth_append)
  next
    case False
    with Cons.prems(2) have "first_latest (seen_d @ [d]) i"
      by (rule first_latest_snoc_keep)
    from Cons.IH [OF len this cmp] Cons.prems(1) Cons.hyps(1) gt False i
    show ?thesis by (simp add: nth_append)
  qed
qed

lemma example_result_datetime:
  "latest_status_datetime (example_result uid d) = Inr (Some d)"
  by (simp add: latest_status_datetime_def example_result_def)

text \<open>
  For a non-empty list of results whose \<open>latest_status\<close> timestamps \<open>ds\<close> are set and
  comparable, the loop of lines 211 to 214 returns the result at the first position
  that holds the greatest instant: a later result replaces the current one only when
  its timestamp is strictly greater.
\<close>

lemma select_latest_first_greatest:
  assumes "rs \<noteq> []"
    and "list_all2 (\<lambda>r d. latest_status_datetime r = Inr (Some d)) rs ds"
    and "comparable ds"
  shows "\<exists>i. first_latest ds i \<and> select_latest rs = Inr (Some (rs ! i))"
proof -
  from assms(1,2) obtain r rs' d ds' where rs: "rs = r # rs'" and ds: "ds = d # ds'"
    and r: "latest_status_datetime r = Inr (Some d)"
    and rest: "list_all2 (\<lambda>r d. latest_status_datetime r = Inr (Some d)) rs' ds'"
    by (cases rs; cases ds) auto
  have "first_latest [d] 0" by (rule first_latest_single)
  from for_latest_comparable [OF rest _ this, of "[r]"] assms(3) ds
  obtain k where "first_latest ds k"
    "for_latest (Some d) (Some r) rs' = Inr (Some (rs ! k))"
    by (auto simp: rs)
  with r show ?thesis by (auto simp: select_latest_def rs)
qed

text \<open>
  C5. The claim says that the choice among any non-empty sequence of valid outcomes is
  the outcome of the greatest latest timestamp. The valid outcomes the method builds
  include the one of a tracking result without events, whose latest timestamp is
  \<open>None\<close>, and line 212 compares timestamps without looking for \<open>None\<close>: with such
  an outcome beside another, in either order, the comparison raises \<open>TypeError\<close> and
  no outcome is returned. The third equation is the same failure from a response with
  two tracking results, the first of them without events.
\<close>

theorem select_latest_blank_raises:
  "select_latest
     [example_empty_result,
      example_result ''2459612000~123456789012~FX'' (Aware 1643702400000000 0)] = Inl TypeError \<and>
   select_latest
     [example_result ''2459612000~123456789012~FX'' (Aware 1643702400000000 0),
      example_empty_result] = Inl TypeError \<and>
   track_by_number
     (example_post (raw_data [raw_result [],
                              raw_result [raw_event ''2022-02-01T08:00:00+00:00'' ''SHIP'']]))
     example_parse ''123456789012'' = Inl TypeError"
proof (intro conjI)
  show first: "select_latest
     [example_empty_result,
      example_result ''2459612000~123456789012~FX'' (Aware 1643702400000000 0)] = Inl TypeError"
    by (simp add: select_latest_def latest_status_datetime_def example_empty_result_def
          example_result_def)
  show "select_latest
     [example_result ''2459612000~123456789012~FX'' (Aware 1643702400000000 0),
      example_empty_result] = Inl TypeError"
    by (simp add: select_latest_def latest_status_datetime_def example_empty_result_def
          example_result_def)
  have "for_results example_parse []
          [raw_result [], raw_result [raw_event ''2022-02-01T08:00:00+00:00'' ''SHIP'']] =
        Inr (Continue
          [example_empty_result,
           example_result ''2459612000~123456789012~FX'' (Aware 1643702400000000 0)])"
    by (simp add: example_empty_block example_ship_result)
  with first show "track_by_number
     (example_post (raw_data [raw_result [],
                              raw_result [raw_event ''2022-02-01T08:00:00+00:00'' ''SHIP'']]))
     example_parse ''123456789012'' = Inl TypeError"
    by (simp add: track_by_number_example)
qed

section \<open>A response without tracking results\<close>

lemma for_indexes_no_results:
  assumes "\<forall>ti \<in> set indexes. \<exists>tres. getitem ti ''trackResults'' = Inr tres \<and> iterate tres = Inr []"
  shows "for_indexes parse acc indexes = Inr (Continue acc)"
  using assms by (induction indexes) (auto simp: index_body_def)

text \<open>When the response has a good status, no \<open>errors\<close> key and a
  \<open>completeTrackResults\<close> whose entries hold no tracking result, the list of results
  is empty, the loop of lines 211 to 214 does not run, and line 215 returns the initial
  \<open>None\<close>.\<close>

lemma no_results_returns_none:
  assumes "post number = Inr resp"
    and "raise_for_status resp = Inr ()"
    and "response_json resp = Inr data"
    and "contains data ''errors'' = Inr False"
    and "getitem data ''output'' = Inr output"
    and "getitem output ''completeTrackResults'' = Inr complete"
    and "iterate complete = Inr indexes"
    and "\<forall>ti \<in> set indexes. \<exists>tres. getitem ti ''trackResults'' = Inr tres \<and> iterate tres = Inr []"
  shows "track_by_number post parse number = Inr None"
  using assms(1-7) for_indexes_no_results [OF assms(8), of parse "[]"]
  by (simp add: track_by_number_def select_latest_def)

lemma example_post_keys:
  "example_post data number = Inr (ok_response data)"
  "raise_for_status (ok_response data) = Inr ()"
  "response_json (ok_response data) = Inr data"
  by (simp_all add: example_post_def ok_response_def raise_for_status_def response_json_def)

lemma example_data_keys:
  "contains (raw_data blocks) ''errors'' = Inr False"
  "getitem (raw_data blocks) ''output'' = Inr (raw_output blocks)"
  "getitem (raw_output blocks) ''completeTrackResults'' = Inr (JList [raw_index blocks])"
  "getitem (raw_index blocks) ''trackResults'' = Inr (JList blocks)"
  by (simp_all add: raw_data_def raw_output_def raw_index_def)

text \<open>
  C3. The claim says that the choice among zero outcomes fails and returns no value.
  The code neither raises nor returns a \<open>TrackingResult\<close>, the type line 145 declares
  and every other exit of the method returns: on the empty list the loop of lines 211
  to 214 leaves \<open>latest_result\<close> at its initial \<open>None\<close>, and for a response whose
  \<open>trackResults\<close> list is empty the method returns that \<open>None\<close>. Its caller
  \<open>download_pod\<close> reads \<open>result.is_valid\<close> on line 220 and raises \<open>AttributeError\<close>.
\<close>

theorem no_results_none_outcome:
  "select_latest [] = Inr None \<and>
   track_by_number (example_post (raw_data [])) example_parse ''123456789012'' = Inr None \<and>
   download_pod (example_post (raw_data [])) example_parse example_fetch []
     ''123456789012'' ''pod.pdf'' = (Some AttributeError, [])"
proof (intro conjI)
  show "select_latest [] = Inr None" by (simp add: select_latest_def)
  have h7: "iterate (JList [raw_index []]) = Inr [raw_index []]" by simp
  have h8: "\<forall>ti \<in> set [raw_index []].
              \<exists>tres. getitem ti ''trackResults'' = Inr tres \<and> iterate tres = Inr []"
    by (simp add: example_data_keys)
  from no_results_returns_none
         [of "example_post (raw_data [])" "''123456789012''",
          OF example_post_keys(1) example_post_keys(2) example_post_keys(3)
             example_data_keys(1) example_data_keys(2) example_data_keys(3) h7 h8]
  show none: "track_by_number (example_post (raw_data [])) example_parse ''123456789012'' =
                Inr None" .
  then show "download_pod (example_post (raw_data [])) example_parse example_fetch []
               ''123456789012'' ''pod.pdf'' = (Some AttributeError, [])"
    by (simp add: download_pod_def)
qed

section \<open>Loops after a prefix that went through\<close>

lemma for_events_append:
  "for_events parse st pre = Inr st' \<Longrightarrow>
   for_events parse st (pre @ rest) = for_events parse st' rest"
proof (induction pre arbitrary: st)
  case Nil
  then show ?case by simp
next
  case (Cons e pre)
  then show ?case by (cases "event_body parse st e") auto
qed

lemma for_results_append:
  "for_results parse acc pre = Inr (Continue acc') \<Longrightarrow>
   for_results parse acc (pre @ rest) = for_results parse acc' rest"
proof (induction pre arbitrary: acc)
  case Nil
  then show ?case by simp
next
  case (Cons b pre)
  then show ?case
    by (cases "result_body parse acc b") (auto split: flow.splits)
qed

lemma for_indexes_append:
  "for_indexes parse acc pre = Inr (Continue acc') \<Longrightarrow>
   for_indexes parse acc (pre @ rest) = for_indexes parse acc' rest"
proof (induction pre arbitrary: acc)
  case Nil
  then show ?case by simp
next
  case (Cons ti pre)
  then show ?case
    by (cases "index_body parse acc ti") (auto split: flow.splits)
qed

text \<open>The method when its loops reach a tracking result \<open>b\<close> with the results \<open>acc2\<close>
  built so far: what the body does on \<open>b\<close> decides the outcome when it raises or
  returns.\<close>

lemma track_by_number_reaches:
  assumes "post number = Inr resp"
    and "raise_for_status resp = Inr ()"
    and "response_json resp = Inr data"
    and "contains data ''errors'' = Inr False"
    and "getitem data ''output'' = Inr output"
    and "getitem output ''completeTrackResults'' = Inr complete"
    and "iterate complete = Inr (ipre @ ti # ipost)"
    and "for_indexes parse [] ipre = Inr (Continue acc1)"
    and "getitem ti ''trackResults'' = Inr tres"
    and "iterate tres = Inr (bpre @ b # bpost)"
    and "for_results parse acc1 bpre = Inr (Continue acc2)"
  shows "result_body parse acc2 b = Inl e \<Longrightarrow> track_by_number post parse number = Inl e"
    and "result_body parse acc2 b = Inr (Return r) \<Longrightarrow>
         track_by_number post parse number = Inr (Some r)"
proof -
  have idx: "for_indexes parse [] (ipre @ ti # ipost) =
               bind_err (for_results parse acc2 (b # bpost)) (\<lambda>fl.
                 case fl of Return r \<Rightarrow> Inr (Return r)
                 | Continue acc \<Rightarrow> for_indexes parse acc ipost)"
    using for_indexes_append [OF assms(8), of "ti # ipost"]
      for_results_append [OF assms(11), of "b # bpost"] assms(9,10)
    by (simp add: index_body_def)
  have top: "track_by_number post parse number =
               bind_err (for_indexes parse [] (ipre @ ti # ipost)) (\<lambda>fl.
                 case fl of Return r \<Rightarrow> Inr (Some r)
                 | Continue tracking_results \<Rightarrow> select_latest tracking_results)"
    using assms(1-7) by (simp add: track_by_number_def)
  show "result_body parse acc2 b = Inl e \<Longrightarrow> track_by_number post parse number = Inl e"
    by (simp add: top idx)
  show "result_body parse acc2 b = Inr (Return r) \<Longrightarrow>
        track_by_number post parse number = Inr (Some r)"
    by (simp add: top idx)
qed

lemma result_body_no_events:
  assumes "getitem b ''trackingNumberInfo'' = Inr info"
    and "getitem info ''trackingNumber'' = Inr v1"
    and "getitem info ''trackingNumberUniqueId'' = Inr v2"
    and "getitem info ''carrierCode'' = Inr v3"
    and "contains b ''dateAndTimes'' = Inr False"
  shows "result_body parse acc b = Inr (Return TrackingResult_False)"
  using assms by (simp add: result_body_def)

lemma event_body_unknown_tag:
  assumes "getitem e ''type'' = Inr (JStr tag)" and "tag \<notin> set (map fst Event_members)"
  shows "event_body parse st e = Inl KeyError"
proof -
  from assms(2) have "map_of Event_members tag = None"
    by (simp add: map_of_eq_None_iff)
  with assms(1) show ?thesis by (simp add: event_body_def decode_event_def)
qed

lemma result_body_unknown_tag:
  assumes "getitem b ''trackingNumberInfo'' = Inr info"
    and "getitem info ''trackingNumber'' = Inr v1"
    and "getitem info ''trackingNumberUniqueId'' = Inr v2"
    and "getitem info ''carrierCode'' = Inr v3"
    and "getitem b ''dateAndTimes'' = Inr dts"
    and "iterate dts = Inr (epre @ e # epost)"
    and "for_events parse init_locals epre = Inr st"
    and "getitem e ''type'' = Inr (JStr tag)"
    and "tag \<notin> set (map fst Event_members)"
  shows "result_body parse acc b = Inl KeyError"
  using result_body_events [OF assms(1-6), of parse acc]
    for_events_append [OF assms(7), of "e # epost"]
    event_body_unknown_tag [OF assms(8,9), of parse st]
  by simp

lemma example_without_events:
  "getitem result_without_events ''trackingNumberInfo'' = Inr raw_info"
  "contains result_without_events ''dateAndTimes'' = Inr False"
  by (simp_all add: result_without_events_def)

section \<open>The outcomes that are not valid\<close>

text \<open>
  C6, as the code has it. The method returns \<open>TrackingResult(False)\<close>, every other
  field at its default \<open>None\<close>, in three cases: the status of the response is an HTTP
  error (400 to 599); the decoded body holds the key \<open>errors\<close>; or the loops reach a
  tracking result that has its identifiers and no \<open>dateAndTimes\<close> key, every tracking
  result before it having gone through without raising or returning.
\<close>

theorem invalid_outcomes:
  assumes "post number = Inr resp"
    and "raise_for_status resp = Inl HTTPError
       \<or> (raise_for_status resp = Inr () \<and> response_json resp = Inr data \<and>
          contains data ''errors'' = Inr True)
       \<or> (raise_for_status resp = Inr () \<and> response_json resp = Inr data \<and>
          contains data ''errors'' = Inr False \<and>
          getitem data ''output'' = Inr output \<and>
          getitem output ''completeTrackResults'' = Inr complete \<and>
          iterate complete = Inr (ipre @ ti # ipost) \<and>
          for_indexes parse [] ipre = Inr (Continue acc1) \<and>
          getitem ti ''trackResults'' = Inr tres \<and>
          iterate tres = Inr (bpre @ b # bpost) \<and>
          for_results parse acc1 bpre = Inr (Continue acc2) \<and>
          getitem b ''trackingNumberInfo'' = Inr info \<and>
          getitem info ''trackingNumber'' = Inr v1 \<and>
          getitem info ''trackingNumberUniqueId'' = Inr v2 \<and>
          getitem info ''carrierCode'' = Inr v3 \<and>
          contains b ''dateAndTimes'' = Inr False)"
  shows "track_by_number post parse number =
           Inr (Some \<lparr>is_valid = False, tracking_number = JNull, unique_id = JNull,
                      carrier_code = JNull, is_delivered = None, is_shipped = None,
                      date_ship = None, date_delivery = None, latest_status = None,
                      events = None, package = None\<rparr>)"
  using assms(2)
proof (elim disjE conjE)
  assume "raise_for_status resp = Inl HTTPError"
  with assms(1) show ?thesis
    by (simp add: track_by_number_def TrackingResult_False_def)
next
  assume "raise_for_status resp = Inr ()" "response_json resp = Inr data"
    "contains data ''errors'' = Inr True"
  with assms(1) show ?thesis
    by (simp add: track_by_number_def TrackingResult_False_def)
next
  assume h: "raise_for_status resp = Inr ()" "response_json resp = Inr data"
    "contains data ''errors'' = Inr False"
    "getitem data ''output'' = Inr output"
    "getitem output ''completeTrackResults'' = Inr complete"
    "iterate complete = Inr (ipre @ ti # ipost)"
    "for_indexes parse [] ipre = Inr (Continue acc1)"
    "getitem ti ''trackResults'' = Inr tres"
    "iterate tres = Inr (bpre @ b # bpost)"
    "for_results parse acc1 bpre = Inr (Continue acc2)"
  assume b: "getitem b ''trackingNumberInfo'' = Inr info"
    "getitem info ''trackingNumber'' = Inr v1"
    "getitem info ''trackingNumberUniqueId'' = Inr v2"
    "getitem info ''carrierCode'' = Inr v3"
    "contains b ''dateAndTimes'' = Inr False"
  have "result_body parse acc2 b = Inr (Return TrackingResult_False)"
    using b by (rule result_body_no_events)
  then have "track_by_number post parse number = Inr (Some TrackingResult_False)"
    using assms(1) h by (rule track_by_number_reaches(2) [rotated -1])
  then show ?thesis by (simp add: TrackingResult_False_def)
qed

text \<open>One response for each case: status 404, a body with \<open>errors\<close>, and a body whose
  second tracking result has no \<open>dateAndTimes\<close> after a first that decodes.\<close>

theorem invalid_outcomes_witness:
  "track_by_number (status_post 404) example_parse ''123456789012'' =
     Inr (Some \<lparr>is_valid = False, tracking_number = JNull, unique_id = JNull,
                carrier_code = JNull, is_delivered = None, is_shipped = None,
                date_ship = None, date_delivery = None, latest_status = None,
                events = None, package = None\<rparr>) \<and>
   track_by_number (example_post error_data) example_parse ''123456789012'' =
     Inr (Some \<lparr>is_valid = False, tracking_number = JNull, unique_id = JNull,
                carrier_code = JNull, is_delivered = None, is_shipped = None,
                date_ship = None, date_delivery = None, latest_status = None,
                events = None, package = None\<rparr>) \<and>
   track_by_number
     (example_post (raw_data [raw_result [raw_event ''2022-02-01T08:00:00+00:00'' ''SHIP''],
                              result_without_events]))
     example_parse ''123456789012'' =
     Inr (Some \<lparr>is_valid = False, tracking_number = JNull, unique_id = JNull,
                carrier_code = JNull, is_delivered = None, is_shipped = None,
                date_ship = None, date_delivery = None, latest_status = None,
                events = None, package = None\<rparr>)"
proof -
  let ?n = "''123456789012''"
  let ?r404 = "\<lparr>status_code = 404, json_body = None\<rparr>"
  have p1: "status_post 404 ?n = Inr ?r404" by (simp add: status_post_def)
  have s1: "raise_for_status ?r404 = Inl HTTPError" by (simp add: raise_for_status_def)
  note first = invalid_outcomes [where post = "status_post 404" and parse = example_parse,
                                 OF p1 disjI1 [OF s1]]
  have s2: "raise_for_status (ok_response error_data) = Inr () \<and>
            response_json (ok_response error_data) = Inr error_data \<and>
            contains error_data ''errors'' = Inr True"
    by (simp add: example_post_keys error_data_def)
  note second = invalid_outcomes [where post = "example_post error_data" and parse = example_parse,
                                  OF example_post_keys(1) disjI2 [OF disjI1 [OF s2]]]
  let ?b1 = "raw_result [raw_event ''2022-02-01T08:00:00+00:00'' ''SHIP'']"
  let ?blocks = "[?b1, result_without_events]"
  let ?r1 = "example_result ''2459612000~123456789012~FX'' (Aware 1643702400000000 0)"
  have s3: "raise_for_status (ok_response (raw_data ?blocks)) = Inr () \<and>
            response_json (ok_response (raw_data ?blocks)) = Inr (raw_data ?blocks) \<and>
            contains (raw_data ?blocks) ''errors'' = Inr False \<and>
            getitem (raw_data ?blocks) ''output'' = Inr (raw_output ?blocks) \<and>
            getitem (raw_output ?blocks) ''completeTrackResults'' = Inr (JList [raw_index ?blocks]) \<and>
            iterate (JList [raw_index ?blocks]) = Inr ([] @ raw_index ?blocks # []) \<and>
            for_indexes example_parse [] [] = Inr (Continue []) \<and>
            getitem (raw_index ?blocks) ''trackResults'' = Inr (JList ?blocks) \<and>
            iterate (JList ?blocks) = Inr ([?b1] @ result_without_events # []) \<and>
            for_results example_parse [] [?b1] = Inr (Continue [?r1]) \<and>
            getitem result_without_events ''trackingNumberInfo'' = Inr raw_info \<and>
            getitem raw_info ''trackingNumber'' = Inr (JStr ''123456789012'') \<and>
            getitem raw_info ''trackingNumberUniqueId'' = Inr (JStr ''2459612000~123456789012~FX'') \<and>
            getitem raw_info ''carrierCode'' = Inr (JStr ''FDXE'') \<and>
            contains result_without_events ''dateAndTimes'' = Inr False"
    by (simp add: example_post_keys example_data_keys example_ship_result
          example_without_events example_result_keys)
  note third = invalid_outcomes [where post = "example_post (raw_data ?blocks)"
                                   and parse = example_parse,
                                 OF example_post_keys(1) disjI2 [OF disjI2 [OF s3]]]
  from first second third show ?thesis by (intro conjI)
qed

text \<open>C6 as stated fails: a tracking result without \<open>dateAndTimes\<close> that comes after a
  tracking result with an unknown event type is never reached; the \<open>KeyError\<close> of the
  first one leaves the method.\<close>

theorem missing_events_counterexample:
  "track_by_number
     (example_post (raw_data [raw_result [raw_event ''2022-02-01T08:00:00+00:00'' ''DELIVERED''],
                              result_without_events]))
     example_parse ''123456789012'' = Inl KeyError"
  by (simp add: track_by_number_example
        result_body_events [OF example_result_keys(1) example_result_keys(3)
          example_result_keys(4) example_result_keys(5) example_result_keys(2)]
        event_body_def decode_event_def raw_event_def Event_members_def)

section \<open>An event type that is not a member\<close>

text \<open>
  C7. When the response has a good status and no \<open>errors\<close> key, the loops reach a
  tracking result \<open>b\<close> with its identifiers and \<open>dateAndTimes\<close>, the events of \<open>b\<close>
  before the event \<open>e\<close> go through, and the \<open>type\<close> of \<open>e\<close> is a string that names no
  member of \<open>Event\<close>, the method raises \<open>KeyError\<close>: the lookup of line 178 is not
  caught, and no result, valid or not, is returned. The conditions are those under
  which the method decodes the event at all; a response that is turned into
  \<open>TrackingResult(False)\<close> beforehand is never decoded that far.
\<close>

theorem unknown_tag_raises:
  assumes "post number = Inr resp"
    and "raise_for_status resp = Inr ()"
    and "response_json resp = Inr data"
    and "contains data ''errors'' = Inr False"
    and "getitem data ''output'' = Inr output"
    and "getitem output ''completeTrackResults'' = Inr complete"
    and "iterate complete = Inr (ipre @ ti # ipost)"
    and "for_indexes parse [] ipre = Inr (Continue acc1)"
    and "getitem ti ''trackResults'' = Inr tres"
    and "iterate tres = Inr (bpre @ b # bpost)"
    and "for_results parse acc1 bpre = Inr (Continue acc2)"
    and "getitem b ''trackingNumberInfo'' = Inr info"
    and "getitem info ''trackingNumber'' = Inr v1"
    and "getitem info ''trackingNumberUniqueId'' = Inr v2"
    and "getitem info ''carrierCode'' = Inr v3"
    and "getitem b ''dateAndTimes'' = Inr dts"
    and "iterate dts = Inr (epre @ e # epost)"
    and "for_events parse init_locals epre = Inr st"
    and "getitem e ''type'' = Inr (JStr tag)"
    and "tag \<notin> set (map fst Event_members)"
  shows "track_by_number post parse number = Inl KeyError"
proof -
  have "result_body parse acc2 b = Inl KeyError"
    using assms(12-20) by (rule result_body_unknown_tag)
  then show ?thesis
    using assms(1-11) by (rule track_by_number_reaches(1) [rotated -1])
qed

text \<open>The type \<open>DELIVERED\<close> in the second event of the second tracking result.\<close>

theorem unknown_tag_raises_witness:
  "track_by_number
     (example_post (raw_data
        [raw_result [raw_event ''2022-02-01T08:00:00+00:00'' ''SHIP''],
         raw_result [raw_event ''2022-02-01T08:00:00+00:00'' ''SHIP'',
                     raw_event ''2022-02-05T14:30:00+00:00'' ''DELIVERED'',
                     raw_event ''2022-02-07T12:00:00+00:00'' ''ESTIMATED_DELIVERY'']]))
     example_parse ''123456789012'' = Inl KeyError"
proof -
  let ?ship = "raw_event ''2022-02-01T08:00:00+00:00'' ''SHIP''"
  let ?bad = "raw_event ''2022-02-05T14:30:00+00:00'' ''DELIVERED''"
  let ?est = "raw_event ''2022-02-07T12:00:00+00:00'' ''ESTIMATED_DELIVERY''"
  let ?blocks = "[raw_result [?ship], raw_result [?ship, ?bad, ?est]]"
  let ?r1 = "example_result ''2459612000~123456789012~FX'' (Aware 1643702400000000 0)"
  let ?st = "\<lparr>shipped = True, delivered = False, ship_date = Some (Aware 1643702400000000 0),
              delivery_date = None, latest_date = Some (Aware 1643702400000000 0),
              latest_type = Some SHIP,
              events_var = [\<lparr>datetime = Some (Aware 1643702400000000 0), type = Some SHIP\<rparr>]\<rparr>"
  have h7: "iterate (JList [raw_index ?blocks]) = Inr ([] @ raw_index ?blocks # [])" by simp
  have h8: "for_indexes example_parse [] [] = Inr (Continue [])" by simp
  have h10: "iterate (JList ?blocks) = Inr ([raw_result [?ship]] @ raw_result [?ship, ?bad, ?est] # [])"
    by simp
  have h11: "for_results example_parse [] [raw_result [?ship]] = Inr (Continue [?r1])"
    by (simp add: example_ship_result)
  have h17: "iterate (JList [?ship, ?bad, ?est]) = Inr ([?ship] @ ?bad # [?est])" by simp
  have h18: "for_events example_parse init_locals [?ship] = Inr ?st"
    by (simp add: event_body_def example_decode event_update_def update_dates_def
          update_latest_def append_event_def init_locals_def)
  have h19: "getitem ?bad ''type'' = Inr (JStr ''DELIVERED'')" by (simp add: raw_event_def)
  have h20: "''DELIVERED'' \<notin> set (map fst Event_members)" by (simp add: Event_members_def)
  from unknown_tag_raises
         [of "example_post (raw_data ?blocks)" "''123456789012''",
          OF example_post_keys(1) example_post_keys(2) example_post_keys(3)
             example_data_keys(1) example_data_keys(2) example_data_keys(3) h7 h8
             example_data_keys(4) h10 h11
             example_result_keys(1) example_result_keys(3) example_result_keys(4)
             example_result_keys(5) example_result_keys(2) h17 h18 h19 h20]
  show ?thesis .
qed

section \<open>\<open>download_pod\<close> on a number that does not resolve\<close>

lemma length_str_split:
  "length (str_split s c) = Suc (length (filter (\<lambda>x. x = c) s))"
proof (induction s)
  case Nil
  then show ?case by simp
next
  case (Cons x s)
  then show ?case by (cases "str_split s c") auto
qed

lemma bare_number_iff: "length (str_split s c) = 1 \<longleftrightarrow> c \<notin> set s"
  by (auto simp: length_str_split filter_empty_conv)

text \<open>
  C8. When the identifier holds no \<open>~\<close>, so that it is a bare tracking number, and
  \<open>track_by_number\<close> returns a result that is not valid, \<open>download_pod\<close> raises
  \<open>InvalidRequestError\<close> and the list of calls to \<open>_download_file\<close> is unchanged: no
  download is attempted.
\<close>

theorem download_pod_invalid_number:
  assumes "CHR ''~'' \<notin> set number"
    and "track_by_number post parse number = Inr (Some r)"
    and "\<not> is_valid r"
  shows "download_pod post parse fetch calls number new_filename =
           (Some InvalidRequestError, calls)"
proof -
  from assms(1) have "length (str_split number (CHR ''~'')) = 1"
    using bare_number_iff [of number "CHR ''~''"] by blast
  with assms(2,3) show ?thesis by (simp add: download_pod_def)
qed

theorem download_pod_invalid_number_witness:
  "download_pod (status_post 404) example_parse example_fetch [] ''123456789012'' ''pod.pdf'' =
     (Some InvalidRequestError, [])"
proof -
  have h1: "CHR ''~'' \<notin> set ''123456789012''" by simp
  have h2: "track_by_number (status_post 404) example_parse ''123456789012'' =
              Inr (Some TrackingResult_False)"
    by (simp add: track_by_number_def status_post_def raise_for_status_def)
  have h3: "\<not> is_valid TrackingResult_False" by (simp add: TrackingResult_False_def)
  from download_pod_invalid_number [OF h1 h2 h3] show ?thesis .
qed

end
